theory Spec2Isabelle
  imports Main
begin

section \<open>Values of the bundled fixtures\<close>

text \<open>
  The feed screen imports \<^verbatim>\<open>dummy/posts.json\<close> and \<^verbatim>\<open>dummy/users.json\<close> and maps every
  post with \<^verbatim>\<open>(item: any)\<close>, so whatever the fixture holds in a field flows through
  unchecked. A field value is therefore a JavaScript value as JSON can produce it, plus
  \<^verbatim>\<open>undefined\<close> for a field that is absent. An array or a nested object is kept as an
  opaque reference: the code only tests such a value for truthiness and identity.
  The fixtures themselves are parameters of every definition below.
\<close>

datatype jsval =
    JUndefined
  | JNull
  | JBool bool
  | JNum int
  | JStr string
  | JRef nat

text \<open>A fixture entry is a JSON object: its members in the order of the text.\<close>

type_synonym jsobject = "(string \<times> jsval) list"

text \<open>Property read \<^verbatim>\<open>o.k\<close>: the last member of that name, \<^verbatim>\<open>undefined\<close> when absent.\<close>

definition getProp :: "jsobject \<Rightarrow> string \<Rightarrow> jsval" where
  "getProp obj k = (case map_of (rev obj) k of None \<Rightarrow> JUndefined | Some v \<Rightarrow> v)"

text \<open>JavaScript truthiness, as \<^verbatim>\<open>||\<close>, \<^verbatim>\<open>&&\<close> and \<^verbatim>\<open>if\<close> test it.\<close>

fun truthy :: "jsval \<Rightarrow> bool" where
  "truthy JUndefined = False"
| "truthy JNull = False"
| "truthy (JBool b) = b"
| "truthy (JNum n) = (n \<noteq> 0)"
| "truthy (JStr s) = (s \<noteq> [])"
| "truthy (JRef r) = True"

text \<open>\<^verbatim>\<open>a || b\<close>\<close>

definition js_or :: "jsval \<Rightarrow> jsval \<Rightarrow> jsval" where
  "js_or a b = (if truthy a then a else b)"

text \<open>\<^verbatim>\<open>typeof v === 'string'\<close>\<close>

fun isString :: "jsval \<Rightarrow> bool" where
  "isString (JStr s) = True"
| "isString v = False"

section \<open>The feed view-model\<close>

text \<open>
  \<^verbatim>\<open>VideoPlayerData\<close> (VideoFeedItem.tsx). The interface declares strings; the values come
  from the fixture through \<^verbatim>\<open>any\<close>, so the fields hold fixture values.
\<close>

record VideoPlayerData =
  id_field :: jsval
  videoSource :: jsval
  posterSource :: jsval
  authorName :: jsval
  authorHandle :: jsval
  caption :: jsval

text \<open>
  The first half of the mapping callback: \<^verbatim>\<open>authorName\<close>, \<^verbatim>\<open>authorHandle\<close> and
  \<^verbatim>\<open>authorImageUrl\<close> start at their defaults and are overwritten in one of two branches.
\<close>

definition authorDetails :: "jsobject list \<Rightarrow> jsobject \<Rightarrow> jsval \<times> jsval \<times> jsval" where
  "authorDetails users item =
     (let authorName0 = JStr ''Unknown Author'';
          authorHandle0 = JStr ''unknownhandle'';
          authorImageUrl0 = JStr ''''
      in if isString (getProp item ''poster_id'') then
           (case find (\<lambda>u. getProp u ''id'' = getProp item ''poster_id'') users of
              Some user \<Rightarrow> (getProp user ''name'', getProp user ''handle'', getProp user ''profile_picture'')
            | None \<Rightarrow> (authorName0, authorHandle0, authorImageUrl0))
         else if isString (getProp item ''authorName'') then
           (getProp item ''authorName'',
            js_or (getProp item ''authorHandle'') authorHandle0,
            js_or (getProp item ''authorImageUrl'') authorImageUrl0)
         else (authorName0, authorHandle0, authorImageUrl0))"

text \<open>The mapping callback: a view-model entry, or \<^verbatim>\<open>null\<close> (here \<open>None\<close>).\<close>

definition mapItem :: "jsobject list \<Rightarrow> jsobject \<Rightarrow> VideoPlayerData option" where
  "mapItem users item =
     (case authorDetails users item of
        (authorName1, authorHandle1, authorImageUrl1) \<Rightarrow>
          if getProp item ''media_type'' = JStr ''video''
             \<and> truthy (js_or (getProp item ''media_url'') (getProp item ''mediaUrl''))
             \<and> truthy (getProp item ''contentId'')
          then Some \<lparr> id_field = getProp item ''contentId'',
                      videoSource = js_or (getProp item ''media_url'') (getProp item ''mediaUrl''),
                      posterSource = js_or (getProp item ''thumbnail_url'') JUndefined,
                      authorName = authorName1,
                      authorHandle = authorHandle1,
                      caption = js_or (getProp item ''message'') (JStr ''No caption'') \<rparr>
          else None)"

text \<open>\<^verbatim>\<open>.filter(item => item !== null)\<close>\<close>

fun filterNotNull :: "'a option list \<Rightarrow> 'a list" where
  "filterNotNull [] = []"
| "filterNotNull (None # xs) = filterNotNull xs"
| "filterNotNull (Some x # xs) = x # filterNotNull xs"

definition processedFeedItems :: "jsobject list \<Rightarrow> jsobject list \<Rightarrow> VideoPlayerData list" where
  "processedFeedItems users sampleFeedItems = filterNotNull (map (mapItem users) sampleFeedItems)"

section \<open>The feed screen\<close>

text \<open>
  \<^verbatim>\<open>HomeScreen\<close> keeps one piece of state, \<^verbatim>\<open>useState<string | null>(null)\<close>. The setter
  stores whatever id the first viewable item carries.
\<close>

record HomeScreen_state =
  activeVideoId :: jsval

definition initialHomeScreen :: HomeScreen_state where
  "initialHomeScreen = \<lparr> activeVideoId = JNull \<rparr>"

text \<open>
  The list's \<^verbatim>\<open>ViewToken\<close>: the two members the callback reads. \<^verbatim>\<open>item\<close> is the data
  entry the token stands for; a falsy \<^verbatim>\<open>item\<close> is \<open>None\<close>.
\<close>

record ViewToken =
  isViewable :: bool
  item :: "VideoPlayerData option"

definition onViewableItemsChanged :: "ViewToken list \<Rightarrow> HomeScreen_state \<Rightarrow> HomeScreen_state" where
  "onViewableItemsChanged viewableItems st =
     (case viewableItems of
        [] \<Rightarrow> st
      | firstViewableItem # others \<Rightarrow>
          if isViewable firstViewableItem then
            (case item firstViewableItem of
               Some d \<Rightarrow> st\<lparr> activeVideoId := id_field d \<rparr>
             | None \<Rightarrow> st)
          else st)"

text \<open>The props \<^verbatim>\<open>renderVideoItem\<close> hands to one card.\<close>

record VideoFeedItemProps =
  initialVideoData :: VideoPlayerData
  isActive :: bool

definition renderVideoItem :: "jsval \<Rightarrow> VideoPlayerData \<Rightarrow> VideoFeedItemProps" where
  "renderVideoItem activeId d = \<lparr> initialVideoData = d, isActive = (id_field d = activeId) \<rparr>"

text \<open>
  What \<^verbatim>\<open>HomeScreen\<close> returns: the empty-feed view with its two texts, or the list with
  one card per entry of \<^verbatim>\<open>data\<close>.
\<close>

datatype screen =
    EmptyFeed string string
  | FeedList "VideoFeedItemProps list"

definition HomeScreen :: "VideoPlayerData list \<Rightarrow> HomeScreen_state \<Rightarrow> screen" where
  "HomeScreen feed st =
     (if length feed = 0
      then EmptyFeed ''No videos available at the moment.''
                     ''Please check back later or ensure 'dummy/posts.json' has video entries.''
      else FeedList (map (renderVideoItem (activeVideoId st)) feed))"

section \<open>One video card\<close>

text \<open>
  A call on the video handle returns a promise: it resolves, or it rejects with a reason.
  The outcome is decided by the player, so it is an argument of every handler that waits
  for one.
\<close>

datatype outcome = Resolved | Rejected string

datatype video_cmd =
    PlayAsync
  | PauseAsync
  | UnloadAsync
  | LoadAsync jsval bool

datatype console_line = ConsoleLog string | ConsoleError string

text \<open>
  The state of \<^verbatim>\<open>VideoFeedItem\<close>: whether \<^verbatim>\<open>videoRef.current\<close> is set, the four
  \<^verbatim>\<open>useState\<close> cells, and the two things the component does to the outside: the calls
  issued on the video handle and the console lines, oldest first.
\<close>

record VideoFeedItem_state =
  videoRef :: bool
  isPlaying :: bool
  isLoading :: bool
  error :: "string option"
  currentVideo :: VideoPlayerData
  issued :: "video_cmd list"
  console :: "console_line list"

definition mount :: "VideoPlayerData \<Rightarrow> VideoFeedItem_state" where
  "mount d = \<lparr> videoRef = False, isPlaying = False, isLoading = True, error = None,
               currentVideo = d, issued = [], console = [] \<rparr>"

text \<open>The effect on \<^verbatim>\<open>[initialVideoData]\<close>; \<open>unloaded\<close> is the outcome of \<^verbatim>\<open>unloadAsync\<close>.\<close>

definition initialVideoDataEffect ::
  "VideoPlayerData \<Rightarrow> outcome \<Rightarrow> VideoFeedItem_state \<Rightarrow> VideoFeedItem_state" where
  "initialVideoDataEffect d unloaded st =
     (let st1 = st\<lparr> currentVideo := d, isLoading := True, isPlaying := False \<rparr>
      in if videoRef st1 then
           (let st2 = st1\<lparr> issued := issued st1 @ [UnloadAsync] \<rparr>
            in case unloaded of
                 Resolved \<Rightarrow> st2\<lparr> issued := issued st2 @ [LoadAsync (videoSource d) False] \<rparr>
               | Rejected e \<Rightarrow> st2)
         else st1)"

text \<open>The effect on \<^verbatim>\<open>[isActive, videoRef.current]\<close>; \<open>res\<close> is the outcome of the call.\<close>

definition isActiveEffect :: "bool \<Rightarrow> outcome \<Rightarrow> VideoFeedItem_state \<Rightarrow> VideoFeedItem_state" where
  "isActiveEffect active res st =
     (if \<not> videoRef st then st
      else if active then
        (let st1 = st\<lparr> issued := issued st @ [PlayAsync] \<rparr>
         in case res of
              Resolved \<Rightarrow> st1\<lparr> isPlaying := True \<rparr>
            | Rejected e \<Rightarrow>
                st1\<lparr> console := console st1 @ [ConsoleError (''Error playing video on active:  '' @ e)] \<rparr>)
      else
        (let st1 = st\<lparr> issued := issued st @ [PauseAsync] \<rparr>
         in case res of
              Resolved \<Rightarrow> st1\<lparr> isPlaying := False \<rparr>
            | Rejected e \<Rightarrow>
                st1\<lparr> console := console st1 @ [ConsoleError (''Error pausing video on inactive:  '' @ e)] \<rparr>))"

text \<open>
  The tap handler. It awaits the call with no handler for a rejection: when the call
  rejects, the handler ends there and the setter is not reached.
\<close>

definition handlePlayPause :: "outcome \<Rightarrow> VideoFeedItem_state \<Rightarrow> VideoFeedItem_state" where
  "handlePlayPause res st =
     (if \<not> videoRef st then st
      else if isPlaying st then
        (let st1 = st\<lparr> issued := issued st @ [PauseAsync] \<rparr>
         in case res of Resolved \<Rightarrow> st1\<lparr> isPlaying := False \<rparr> | Rejected e \<Rightarrow> st1)
      else
        (let st1 = st\<lparr> issued := issued st @ [PlayAsync] \<rparr>
         in case res of Resolved \<Rightarrow> st1\<lparr> isPlaying := True \<rparr> | Rejected e \<Rightarrow> st1))"

text \<open>\<^verbatim>\<open>SimilarVideoData\<close> (SimilarVideoThumbnail.tsx); the entries are literals of the component.\<close>

record SimilarVideoData =
  id_similar :: string
  media_url :: string
  thumbnail_url :: "string option"
  title :: string

text \<open>
  Selecting a similar video; \<open>active\<close> is the \<^verbatim>\<open>isActive\<close> prop of the render the handler
  closes over, \<open>unloaded\<close> the outcome of \<^verbatim>\<open>unloadAsync\<close>.
\<close>

definition handleSimilarVideoSelect ::
  "SimilarVideoData \<Rightarrow> bool \<Rightarrow> outcome \<Rightarrow> VideoFeedItem_state \<Rightarrow> VideoFeedItem_state" where
  "handleSimilarVideoSelect selectedVideo active unloaded st =
     (let st1 = st\<lparr> console := console st @ [ConsoleLog (''Switching to: '' @ title selectedVideo)] \<rparr>;
          st2 = st1\<lparr> currentVideo := (currentVideo st1)
                  \<lparr> id_field := JStr (id_similar selectedVideo),
                    videoSource := JStr (media_url selectedVideo),
                    posterSource := (case thumbnail_url selectedVideo of
                                       None \<Rightarrow> JUndefined | Some t \<Rightarrow> JStr t),
                    caption := JStr (title selectedVideo) \<rparr> \<rparr>;
          st3 = st2\<lparr> isLoading := True \<rparr>
      in if videoRef st3 then
           (let st4 = st3\<lparr> issued := issued st3 @ [UnloadAsync] \<rparr>
            in case unloaded of
                 Resolved \<Rightarrow>
                   st4\<lparr> issued := issued st4 @
                          [LoadAsync (JStr (media_url selectedVideo)) (active \<and> isPlaying st)] \<rparr>
               | Rejected e \<Rightarrow> st4)
         else st3)"

text \<open>The three callbacks of the \<^verbatim>\<open>Video\<close> element.\<close>

record PlaybackStatus =
  isLoaded :: bool
  status_error :: "string option"

definition onPlaybackStatusUpdate :: "PlaybackStatus \<Rightarrow> VideoFeedItem_state \<Rightarrow> VideoFeedItem_state" where
  "onPlaybackStatusUpdate status st =
     (if isLoaded status then st\<lparr> isLoading := False, error := None \<rparr>
      else (case status_error status of
              None \<Rightarrow> st
            | Some e \<Rightarrow>
                if e \<noteq> [] then
                  st\<lparr> error := Some (''Video Error: '' @ e), isLoading := False,
                      console := console st @ [ConsoleError (''Video Playback Error: '' @ e)] \<rparr>
                else st))"

definition onLoadStart :: "VideoFeedItem_state \<Rightarrow> VideoFeedItem_state" where
  "onLoadStart st = st\<lparr> isLoading := True, error := None \<rparr>"

definition onError :: "string \<Rightarrow> VideoFeedItem_state \<Rightarrow> VideoFeedItem_state" where
  "onError e st =
     st\<lparr> error := Some (''Failed to load video. '' @ e), isLoading := False,
         console := console st @ [ConsoleError (''Video Load Error: '' @ e)] \<rparr>"

text \<open>The two conditional overlays of the card's render.\<close>

definition showsLoadingOverlay :: "VideoFeedItem_state \<Rightarrow> bool" where
  "showsLoadingOverlay st = isLoading st"

definition showsErrorOverlay :: "VideoFeedItem_state \<Rightarrow> bool" where
  "showsErrorOverlay st = (case error st of None \<Rightarrow> False | Some m \<Rightarrow> m \<noteq> [] \<and> \<not> isLoading st)"

section \<open>The drawer's images\<close>

text \<open>
  \<^verbatim>\<open>CustomDrawerContent\<close> holds the current user and the authorized users; each of its
  \<^verbatim>\<open>Image\<close> elements has the same \<^verbatim>\<open>onError\<close>, which writes one console line.
\<close>

record Drawer_state =
  currentUser :: "jsobject option"
  authorizedUsers :: "jsobject list"
  drawer_console :: "console_line list"

definition imageOnError :: "string \<Rightarrow> Drawer_state \<Rightarrow> Drawer_state" where
  "imageOnError e st =
     st\<lparr> drawer_console := drawer_console st @ [ConsoleLog (''Failed to load image '' @ e)] \<rparr>"

section \<open>The view-model as the specification words it\<close>

text \<open>
  The entries the specification selects: \<^verbatim>\<open>media_type\<close> is \<^verbatim>\<open>'video'\<close>, a non-empty
  \<^verbatim>\<open>media_url\<close> (or \<^verbatim>\<open>mediaUrl\<close>), and a \<^verbatim>\<open>contentId\<close>.
\<close>

definition spec_selected :: "jsobject \<Rightarrow> bool" where
  "spec_selected post =
     (getProp post ''media_type'' = JStr ''video''
      \<and> (truthy (getProp post ''media_url'') \<or> truthy (getProp post ''mediaUrl''))
      \<and> truthy (getProp post ''contentId''))"

text \<open>
  The author fields as the specification words them: looked up in the users fixture by
  \<^verbatim>\<open>poster_id\<close>, the two defaults when no user matches.
\<close>

definition spec_author :: "jsobject list \<Rightarrow> jsobject \<Rightarrow> jsval \<times> jsval" where
  "spec_author users post =
     (case find (\<lambda>u. getProp u ''id'' = getProp post ''poster_id'') users of
        Some u \<Rightarrow> (getProp u ''name'', getProp u ''handle'')
      | None \<Rightarrow> (JStr ''Unknown Author'', JStr ''unknownhandle''))"

text \<open>
  The author fields with the second source added: a post whose \<^verbatim>\<open>poster_id\<close> is not a
  string and whose \<^verbatim>\<open>authorName\<close> is one carries its author itself.
\<close>

definition amended_author :: "jsobject list \<Rightarrow> jsobject \<Rightarrow> jsval \<times> jsval" where
  "amended_author users post =
     (if isString (getProp post ''poster_id'') then spec_author users post
      else if isString (getProp post ''authorName'') then
        (getProp post ''authorName'',
         if truthy (getProp post ''authorHandle'') then getProp post ''authorHandle''
         else JStr ''unknownhandle'')
      else (JStr ''Unknown Author'', JStr ''unknownhandle''))"

definition spec_view :: "jsobject list \<Rightarrow> jsobject \<Rightarrow> VideoPlayerData" where
  "spec_view users post =
     \<lparr> id_field = getProp post ''contentId'',
       videoSource = (if truthy (getProp post ''media_url'') then getProp post ''media_url''
                      else getProp post ''mediaUrl''),
       posterSource = (if truthy (getProp post ''thumbnail_url'') then getProp post ''thumbnail_url''
                       else JUndefined),
       authorName = fst (amended_author users post),
       authorHandle = snd (amended_author users post),
       caption = (if truthy (getProp post ''message'') then getProp post ''message''
                  else JStr ''No caption'') \<rparr>"

text \<open>The calls a handler added to those already issued.\<close>

definition newlyIssued :: "VideoFeedItem_state \<Rightarrow> VideoFeedItem_state \<Rightarrow> video_cmd list" where
  "newlyIssued st st' = drop (length (issued st)) (issued st')"

text \<open>The literal \<^verbatim>\<open>dummySimilarVideos\<close> of the card.\<close>

definition dummySimilarVideos :: "SimilarVideoData list" where
  "dummySimilarVideos =
     [\<lparr> id_similar = ''sim1'',
        media_url = ''http://d23dyxeqlo5psv.cloudfront.net/big_buck_bunny.mp4'',
        thumbnail_url = Some ''https://peach.blender.org/wp-content/uploads/title_anouncement.jpg?x11217'',
        title = ''Big Buck Bunny (Similar)'' \<rparr>,
      \<lparr> id_similar = ''sim2'',
        media_url = ''http://commondatastorage.googleapis.com/gtv-videos-bucket/sample/ElephantsDream.mp4'',
        thumbnail_url = Some ''https://storage.googleapis.com/gtv-videos-bucket/sample/images/ElephantsDream.jpg'',
        title = ''Elephants Dream (Similar)'' \<rparr>,
      \<lparr> id_similar = ''sim3'',
        media_url = ''http://commondatastorage.googleapis.com/gtv-videos-bucket/sample/ForBiggerBlazes.mp4'',
        thumbnail_url = Some ''https://storage.googleapis.com/gtv-videos-bucket/sample/images/ForBiggerBlazes.jpg'',
        title = ''For Bigger Blazes (Similar)'' \<rparr>]"

section \<open>A small fixture for the examples\<close>

text \<open>
  One user; a video post by that user, a text post, and a video post of the older shape
  that names its author itself.
\<close>

definition exampleUsers :: "jsobject list" where
  "exampleUsers =
     [[(''id'', JStr ''u1''), (''name'', JStr ''Grace''), (''handle'', JStr ''grace''),
       (''profile_picture'', JStr ''g.png'')]]"

definition exampleLegacyPost :: jsobject where
  "exampleLegacyPost =
     [(''contentId'', JStr ''c3''), (''authorName'', JStr ''Ada''), (''authorHandle'', JStr ''ada''),
      (''media_type'', JStr ''video''), (''mediaUrl'', JStr ''b.mp4''),
      (''thumbnail_url'', JStr ''b.jpg'')]"

definition examplePosts :: "jsobject list" where
  "examplePosts =
     [[(''contentId'', JStr ''c1''), (''poster_id'', JStr ''u1''), (''media_type'', JStr ''video''),
       (''media_url'', JStr ''a.mp4''), (''message'', JStr ''hello'')],
      [(''contentId'', JStr ''c2''), (''poster_id'', JStr ''u1''), (''media_type'', JStr ''text''),
       (''message'', JStr ''no video'')],
      exampleLegacyPost]"

definition exampleVideo :: VideoPlayerData where
  "exampleVideo =
     \<lparr> id_field = JStr ''c1'', videoSource = JStr ''a.mp4'', posterSource = JUndefined,
       authorName = JStr ''Grace'', authorHandle = JStr ''grace'', caption = JStr ''hello'' \<rparr>"

definition exampleLegacyVideo :: VideoPlayerData where
  "exampleLegacyVideo =
     \<lparr> id_field = JStr ''c3'', videoSource = JStr ''b.mp4'', posterSource = JStr ''b.jpg'',
       authorName = JStr ''Ada'', authorHandle = JStr ''ada'', caption = JStr ''No caption'' \<rparr>"

text \<open>A card of the first video once its video element is attached.\<close>

definition exampleCard :: VideoFeedItem_state where
  "exampleCard = (mount exampleVideo)\<lparr> videoRef := True \<rparr>"


section \<open>Auxiliary facts\<close>

lemma example_feed:
  "processedFeedItems exampleUsers examplePosts = [exampleVideo, exampleLegacyVideo]"
  by (simp add: processedFeedItems_def mapItem_def authorDetails_def js_or_def getProp_def
        exampleUsers_def examplePosts_def exampleLegacyPost_def exampleVideo_def
        exampleLegacyVideo_def)


lemma mapItem_rejected: "\<not> spec_selected post \<Longrightarrow> mapItem users post = None"
  by (auto simp: mapItem_def spec_selected_def js_or_def split: prod.splits)

lemma authorDetails_amended:
  "authorDetails users post = (a, h, i) \<Longrightarrow> amended_author users post = (a, h)"
  by (auto simp: authorDetails_def amended_author_def spec_author_def js_or_def Let_def
           split: if_splits option.splits)

lemma mapItem_view: "spec_selected post \<Longrightarrow> mapItem users post = Some (spec_view users post)"
  by (auto simp: mapItem_def spec_selected_def spec_view_def js_or_def
           split: prod.splits dest: authorDetails_amended)

lemma view_model_eq:
  "processedFeedItems users posts = map (spec_view users) (filter spec_selected posts)"
proof (induction posts)
  case Nil
  show ?case by (simp add: processedFeedItems_def)
next
  case (Cons p ps)
  then show ?case
    by (cases "spec_selected p") (simp_all add: processedFeedItems_def mapItem_view mapItem_rejected)
qed

lemma feed_ids_truthy: "d \<in> set (processedFeedItems users posts) \<Longrightarrow> truthy (id_field d)"
  by (auto simp: view_model_eq spec_view_def spec_selected_def)

lemma onViewableItemsChanged_cases:
  "activeVideoId (onViewableItemsChanged vs st) = activeVideoId st
   \<or> (\<exists>t d. t \<in> set vs \<and> item t = Some d
            \<and> activeVideoId (onViewableItemsChanged vs st) = id_field d)"
  by (auto simp: onViewableItemsChanged_def split: list.splits option.splits)

lemma active_stays_set:
  assumes "\<forall>vs \<in> set calls. \<forall>t \<in> set vs. \<forall>d. item t = Some d \<longrightarrow> id_field d \<noteq> JNull"
  shows "activeVideoId st \<noteq> JNull \<Longrightarrow> activeVideoId (fold onViewableItemsChanged calls st) \<noteq> JNull"
  using assms
proof (induction calls arbitrary: st)
  case Nil
  then show ?case by simp
next
  case (Cons vs calls)
  from Cons.prems have "activeVideoId (onViewableItemsChanged vs st) \<noteq> JNull"
    using onViewableItemsChanged_cases [of vs st] by auto
  with Cons show ?case by simp
qed

lemma example_card_simps:
  "videoRef exampleCard" "\<not> isPlaying exampleCard" "isLoading exampleCard"
  "error exampleCard = None" "issued exampleCard = []" "console exampleCard = []"
  "currentVideo exampleCard = exampleVideo"
  by (simp_all add: exampleCard_def mount_def)



section \<open>The activation policy of the feed\<close>




text \<open>
  C10. The active id starts as \<^verbatim>\<open>null\<close>. A viewability callback leaves the state as it
  is when its list is empty or its first token is not viewable or has no item; otherwise
  it stores the id of the first token's item. Over any sequence of callbacks whose tokens
  stand for entries of the feed, an active id that is not \<^verbatim>\<open>null\<close> stays not \<^verbatim>\<open>null\<close>.
\<close>

theorem activeVideoId_updates:
  "activeVideoId initialHomeScreen = JNull
   \<and> onViewableItemsChanged [] st = st
   \<and> (\<not> isViewable t \<or> item t = None \<longrightarrow> onViewableItemsChanged (t # ts) st = st)
   \<and> (isViewable t \<and> item t = Some d \<longrightarrow>
        onViewableItemsChanged (t # ts) st = st\<lparr> activeVideoId := id_field d \<rparr>)
   \<and> ((\<forall>vs \<in> set calls. \<forall>t \<in> set vs. \<forall>d. item t = Some d \<longrightarrow>
          d \<in> set (processedFeedItems users posts))
       \<and> activeVideoId st \<noteq> JNull
       \<longrightarrow> activeVideoId (fold onViewableItemsChanged calls st) \<noteq> JNull)"
proof -
  have "activeVideoId (fold onViewableItemsChanged calls st) \<noteq> JNull"
    if h: "\<forall>vs \<in> set calls. \<forall>t \<in> set vs. \<forall>d. item t = Some d \<longrightarrow>
            d \<in> set (processedFeedItems users posts)"
      and s: "activeVideoId st \<noteq> JNull"
  proof (rule active_stays_set [OF _ s])
    show "\<forall>vs \<in> set calls. \<forall>t \<in> set vs. \<forall>d. item t = Some d \<longrightarrow> id_field d \<noteq> JNull"
      using h feed_ids_truthy by fastforce
  qed
  then show ?thesis
    by (auto simp: initialHomeScreen_def onViewableItemsChanged_def split: option.splits)
qed

text \<open>
  Three callbacks on the example feed, from the state the first video left: the second
  video comes into view, an empty list, a token that is not viewable.
\<close>

theorem activeVideoId_updates_witness:
  "onViewableItemsChanged
     [\<lparr> isViewable = True, item = Some exampleLegacyVideo \<rparr>,
      \<lparr> isViewable = True, item = Some exampleVideo \<rparr>] \<lparr> activeVideoId = JStr ''c1'' \<rparr>
   = \<lparr> activeVideoId = JStr ''c3'' \<rparr>
   \<and> onViewableItemsChanged [\<lparr> isViewable = False, item = Some exampleVideo \<rparr>]
        \<lparr> activeVideoId = JStr ''c3'' \<rparr> = \<lparr> activeVideoId = JStr ''c3'' \<rparr>
   \<and> activeVideoId
        (fold onViewableItemsChanged
           [[\<lparr> isViewable = True, item = Some exampleLegacyVideo \<rparr>], [],
            [\<lparr> isViewable = False, item = Some exampleVideo \<rparr>]]
           \<lparr> activeVideoId = JStr ''c1'' \<rparr>) \<noteq> JNull"
proof -
  let ?t1 = "\<lparr> isViewable = True, item = Some exampleLegacyVideo \<rparr>"
  let ?t2 = "\<lparr> isViewable = True, item = Some exampleVideo \<rparr>"
  let ?t3 = "\<lparr> isViewable = False, item = Some exampleVideo \<rparr>"
  let ?s = "\<lparr> activeVideoId = JStr ''c1'' \<rparr>"
  let ?s' = "\<lparr> activeVideoId = JStr ''c3'' \<rparr>"
  have a: "onViewableItemsChanged (?t1 # [?t2]) ?s = ?s\<lparr> activeVideoId := id_field exampleLegacyVideo \<rparr>"
    using activeVideoId_updates [of ?s ?t1 "[?t2]" exampleLegacyVideo "[]" exampleUsers examplePosts]
    by simp
  have b: "onViewableItemsChanged (?t3 # []) ?s' = ?s'"
    using activeVideoId_updates [of ?s' ?t3 "[]" exampleVideo "[]" exampleUsers examplePosts]
    by simp
  have c: "activeVideoId (fold onViewableItemsChanged [[?t1], [], [?t3]] ?s) \<noteq> JNull"
    using activeVideoId_updates [of ?s ?t1 "[]" exampleVideo "[[?t1], [], [?t3]]"
        exampleUsers examplePosts]
    by (simp add: example_feed)
  from a b c show ?thesis by (simp add: exampleLegacyVideo_def)
qed

text \<open>
  C8. When the processed feed is empty \<^verbatim>\<open>HomeScreen\<close> returns the empty-feed view with
  the text \<^verbatim>\<open>No videos available at the moment.\<close>; it returns the video list exactly when
  the processed feed has an entry.
\<close>

theorem empty_feed_message:
  "(processedFeedItems users posts = [] \<longrightarrow>
      HomeScreen (processedFeedItems users posts) st
      = EmptyFeed ''No videos available at the moment.''
                  ''Please check back later or ensure 'dummy/posts.json' has video entries.'')
   \<and> ((\<exists>cards. HomeScreen (processedFeedItems users posts) st = FeedList cards)
        = (processedFeedItems users posts \<noteq> []))"
  by (simp add: HomeScreen_def)

text \<open>A posts fixture without a video entry gives the empty-feed view.\<close>

theorem empty_feed_message_witness:
  "processedFeedItems exampleUsers [[(''contentId'', JStr ''c2''), (''media_type'', JStr ''text'')]] = []
   \<and> HomeScreen
        (processedFeedItems exampleUsers [[(''contentId'', JStr ''c2''), (''media_type'', JStr ''text'')]])
        initialHomeScreen
      = EmptyFeed ''No videos available at the moment.''
                  ''Please check back later or ensure 'dummy/posts.json' has video entries.''"
proof -
  have e: "processedFeedItems exampleUsers
             [[(''contentId'', JStr ''c2''), (''media_type'', JStr ''text'')]] = []"
    by (simp add: processedFeedItems_def mapItem_def getProp_def split: prod.splits)
  from empty_feed_message
         [of exampleUsers "[[(''contentId'', JStr ''c2''), (''media_type'', JStr ''text'')]]"
             initialHomeScreen] e
  show ?thesis by simp
qed


section \<open>The view-model of the feed\<close>

text \<open>
  A post of the older shape: no \<^verbatim>\<open>poster_id\<close>, so no user matches it, and the
  view-model still names its author from the post itself instead of the two defaults.
\<close>

theorem view_model_author_counterexample:
  "getProp exampleLegacyPost ''poster_id'' = JUndefined
   \<and> spec_author exampleUsers exampleLegacyPost = (JStr ''Unknown Author'', JStr ''unknownhandle'')
   \<and> processedFeedItems exampleUsers [exampleLegacyPost]
     = [\<lparr> id_field = JStr ''c3'', videoSource = JStr ''b.mp4'', posterSource = JStr ''b.jpg'',
          authorName = JStr ''Ada'', authorHandle = JStr ''ada'', caption = JStr ''No caption'' \<rparr>]"
  by (simp add: processedFeedItems_def mapItem_def authorDetails_def spec_author_def js_or_def
        getProp_def exampleUsers_def exampleLegacyPost_def)

text \<open>
  C4, amended. \<^verbatim>\<open>processedFeedItems\<close> holds, in the order of the posts fixture, exactly
  the entries whose \<^verbatim>\<open>media_type\<close> is \<^verbatim>\<open>'video'\<close>, whose \<^verbatim>\<open>media_url\<close> or \<^verbatim>\<open>mediaUrl\<close>
  is truthy and whose \<^verbatim>\<open>contentId\<close> is truthy. Each is mapped to: id = \<^verbatim>\<open>contentId\<close>;
  videoSource = \<^verbatim>\<open>media_url\<close> if truthy, else \<^verbatim>\<open>mediaUrl\<close>; posterSource =
  \<^verbatim>\<open>thumbnail_url\<close> if truthy, else undefined; caption = \<^verbatim>\<open>message\<close> if truthy, else
  \<^verbatim>\<open>'No caption'\<close>. The author fields: when \<^verbatim>\<open>poster_id\<close> is a string, name and handle of
  the first user with that id, or \<^verbatim>\<open>'Unknown Author'\<close> and \<^verbatim>\<open>'unknownhandle'\<close> when there
  is none; otherwise, when the post's \<^verbatim>\<open>authorName\<close> is a string, that name and the post's
  \<^verbatim>\<open>authorHandle\<close> (or \<^verbatim>\<open>'unknownhandle'\<close>); otherwise the two defaults.
\<close>

theorem processedFeedItems_view_model:
  "processedFeedItems users posts = map (spec_view users) (filter spec_selected posts)"
  by (rule view_model_eq)

text \<open>The example fixture: the text post is dropped, the order of the two videos is kept.\<close>

theorem processedFeedItems_view_model_witness:
  "map (spec_view exampleUsers) (filter spec_selected examplePosts)
   = [exampleVideo, exampleLegacyVideo]"
  using processedFeedItems_view_model [of exampleUsers examplePosts] example_feed by simp

section \<open>The card: selection of a similar video\<close>

text \<open>
  C9. Whatever the card's state and the selected similar video, the new current video is
  the old one with id, videoSource, posterSource and caption taken from the selected
  video's id, \<^verbatim>\<open>media_url\<close>, \<^verbatim>\<open>thumbnail_url\<close> and title; authorName and authorHandle are
  those of the old current video.
\<close>

theorem similar_video_frame:
  "currentVideo (handleSimilarVideoSelect sel active unloaded st)
   = (currentVideo st)\<lparr> id_field := JStr (id_similar sel),
                         videoSource := JStr (media_url sel),
                         posterSource := (case thumbnail_url sel of None \<Rightarrow> JUndefined | Some t \<Rightarrow> JStr t),
                         caption := JStr (title sel) \<rparr>
   \<and> authorName (currentVideo (handleSimilarVideoSelect sel active unloaded st))
     = authorName (currentVideo st)
   \<and> authorHandle (currentVideo (handleSimilarVideoSelect sel active unloaded st))
     = authorHandle (currentVideo st)"
  by (cases unloaded) (simp_all add: handleSimilarVideoSelect_def Let_def)

text \<open>The example card after the first entry of \<^verbatim>\<open>dummySimilarVideos\<close> is selected.\<close>

theorem similar_video_frame_witness:
  "currentVideo (handleSimilarVideoSelect (hd dummySimilarVideos) True Resolved exampleCard)
   = \<lparr> id_field = JStr ''sim1'',
       videoSource = JStr ''http://d23dyxeqlo5psv.cloudfront.net/big_buck_bunny.mp4'',
       posterSource = JStr ''https://peach.blender.org/wp-content/uploads/title_anouncement.jpg?x11217'',
       authorName = JStr ''Grace'', authorHandle = JStr ''grace'',
       caption = JStr ''Big Buck Bunny (Similar)'' \<rparr>"
  using similar_video_frame [of "hd dummySimilarVideos" True Resolved exampleCard]
  by (simp add: dummySimilarVideos_def example_card_simps exampleVideo_def)

section \<open>The card: play and pause\<close>

text \<open>
  The example card becomes active and the player rejects the call: play is issued,
  \<^verbatim>\<open>isPlaying\<close> stays false and the rejection is logged.
\<close>

theorem isActive_effect_rejected_counterexample:
  "videoRef exampleCard
   \<and> issued (isActiveEffect True (Rejected ''not loaded'') exampleCard) = [PlayAsync]
   \<and> isPlaying (isActiveEffect True (Rejected ''not loaded'') exampleCard) = False
   \<and> console (isActiveEffect True (Rejected ''not loaded'') exampleCard)
     = [ConsoleError ''Error playing video on active:  not loaded'']"
  by (simp add: isActiveEffect_def example_card_simps)

text \<open>
  C2, amended. On a card with a mounted video handle the effect on \<^verbatim>\<open>isActive\<close> issues
  exactly one call, play when \<^verbatim>\<open>isActive\<close> is true and pause when it is false. When the
  call resolves, \<^verbatim>\<open>isPlaying\<close> becomes true after play and false after pause, and nothing
  is logged. When the call rejects, \<^verbatim>\<open>isPlaying\<close> keeps its value and one error line is
  logged.
\<close>

theorem isActive_effect_plays_and_pauses:
  assumes "videoRef st"
  shows "newlyIssued st (isActiveEffect True res st) = [PlayAsync]
       \<and> newlyIssued st (isActiveEffect False res st) = [PauseAsync]
       \<and> isPlaying (isActiveEffect True Resolved st)
       \<and> \<not> isPlaying (isActiveEffect False Resolved st)
       \<and> console (isActiveEffect active Resolved st) = console st
       \<and> isPlaying (isActiveEffect active (Rejected e) st) = isPlaying st
       \<and> console (isActiveEffect True (Rejected e) st)
           = console st @ [ConsoleError (''Error playing video on active:  '' @ e)]
       \<and> console (isActiveEffect False (Rejected e) st)
           = console st @ [ConsoleError (''Error pausing video on inactive:  '' @ e)]"
  using assms by (cases res) (simp_all add: isActiveEffect_def newlyIssued_def Let_def)

text \<open>The example card becomes active and the call resolves: it plays.\<close>

theorem isActive_effect_plays_and_pauses_witness:
  "videoRef exampleCard
   \<and> newlyIssued exampleCard (isActiveEffect True Resolved exampleCard) = [PlayAsync]
   \<and> isPlaying (isActiveEffect True Resolved exampleCard)
   \<and> newlyIssued exampleCard (isActiveEffect False Resolved exampleCard) = [PauseAsync]
   \<and> \<not> isPlaying (isActiveEffect False Resolved exampleCard)"
proof -
  have m: "videoRef exampleCard" by (simp add: example_card_simps)
  from isActive_effect_plays_and_pauses [OF m, of Resolved] m show ?thesis by simp
qed

text \<open>
  The example card is tapped while paused and the player rejects the call: play is
  issued and \<^verbatim>\<open>isPlaying\<close> stays false.
\<close>

theorem handlePlayPause_rejected_counterexample:
  "videoRef exampleCard
   \<and> isPlaying exampleCard = False
   \<and> issued (handlePlayPause (Rejected ''not loaded'') exampleCard) = [PlayAsync]
   \<and> isPlaying (handlePlayPause (Rejected ''not loaded'') exampleCard) = False"
  by (simp add: handlePlayPause_def example_card_simps)

text \<open>
  C6, amended. On a card with a mounted video handle a tap issues exactly one call, pause
  when \<^verbatim>\<open>isPlaying\<close> is true and play when it is false. When the call resolves,
  \<^verbatim>\<open>isPlaying\<close> is negated, so two taps whose calls resolve give the original value back.
  When the call rejects, \<^verbatim>\<open>isPlaying\<close> keeps its value.
\<close>

theorem handlePlayPause_toggles:
  assumes "videoRef st"
  shows "newlyIssued st (handlePlayPause res st) = [if isPlaying st then PauseAsync else PlayAsync]
       \<and> isPlaying (handlePlayPause Resolved st) = (\<not> isPlaying st)
       \<and> isPlaying (handlePlayPause Resolved (handlePlayPause Resolved st)) = isPlaying st
       \<and> isPlaying (handlePlayPause (Rejected e) st) = isPlaying st"
  using assms by (cases res) (simp_all add: handlePlayPause_def newlyIssued_def Let_def)

text \<open>Two taps on the example card, both calls resolving: play, then pause.\<close>

theorem handlePlayPause_toggles_witness:
  "videoRef exampleCard
   \<and> newlyIssued exampleCard (handlePlayPause Resolved exampleCard) = [PlayAsync]
   \<and> isPlaying (handlePlayPause Resolved exampleCard)
   \<and> \<not> isPlaying (handlePlayPause Resolved (handlePlayPause Resolved exampleCard))"
proof -
  have m: "videoRef exampleCard" by (simp add: example_card_simps)
  from handlePlayPause_toggles [OF m, of Resolved] m show ?thesis
    by (simp add: example_card_simps)
qed

section \<open>The card: loading and unloading\<close>

text \<open>
  The example card becomes active, and becomes inactive: the only calls are play and
  pause; nothing is loaded and nothing is unloaded.
\<close>

theorem activation_load_counterexample:
  "issued exampleCard = []
   \<and> issued (isActiveEffect True Resolved exampleCard) = [PlayAsync]
   \<and> issued (isActiveEffect False Resolved exampleCard) = [PauseAsync]"
  by (simp add: isActiveEffect_def example_card_simps)

text \<open>
  C3, amended. A change of a card's activation never loads or unloads: the effect on
  \<^verbatim>\<open>isActive\<close> adds to the calls already issued nothing but play or pause. Unload followed
  by load is what a card with a mounted handle issues when its \<^verbatim>\<open>initialVideoData\<close> prop
  changes (load of the new source, not playing) and when a similar video is selected
  (load of the selected source), in both cases when the unload resolves.
\<close>

theorem activation_never_loads:
  "set (newlyIssued st (isActiveEffect active res st)) \<subseteq> {PlayAsync, PauseAsync}
   \<and> take (length (issued st)) (issued (isActiveEffect active res st)) = issued st
   \<and> (videoRef st \<longrightarrow>
        newlyIssued st (initialVideoDataEffect d Resolved st)
        = [UnloadAsync, LoadAsync (videoSource d) False])
   \<and> (videoRef st \<longrightarrow>
        newlyIssued st (handleSimilarVideoSelect sel active Resolved st)
        = [UnloadAsync, LoadAsync (JStr (media_url sel)) (active \<and> isPlaying st)])"
  by (cases res) (auto simp: isActiveEffect_def initialVideoDataEffect_def
        handleSimilarVideoSelect_def newlyIssued_def Let_def)

text \<open>The example card is handed the second example video as its new data.\<close>

theorem activation_never_loads_witness:
  "videoRef exampleCard
   \<and> newlyIssued exampleCard (initialVideoDataEffect exampleLegacyVideo Resolved exampleCard)
     = [UnloadAsync, LoadAsync (JStr ''b.mp4'') False]
   \<and> set (newlyIssued exampleCard (isActiveEffect True Resolved exampleCard))
     \<subseteq> {PlayAsync, PauseAsync}"
proof -
  have m: "videoRef exampleCard" by (simp add: example_card_simps)
  from activation_never_loads
         [of exampleCard True Resolved exampleLegacyVideo "hd dummySimilarVideos"] m
  show ?thesis by (simp add: exampleLegacyVideo_def)
qed

section \<open>Load failures\<close>

text \<open>
  The example card, still loading and without an error, is told that its video failed
  to load: besides the console line, the error message is stored, the loading flag is
  cleared and the error overlay is shown.
\<close>

theorem video_load_failure_counterexample:
  "error exampleCard = None
   \<and> error (onError ''boom'' exampleCard) = Some ''Failed to load video. boom''
   \<and> isLoading exampleCard
   \<and> isLoading (onError ''boom'' exampleCard) = False
   \<and> showsErrorOverlay exampleCard = False
   \<and> showsErrorOverlay (onError ''boom'' exampleCard)"
  by (simp add: onError_def showsErrorOverlay_def example_card_simps)

text \<open>
  C5, amended. On an image load failure the drawer only writes one console line: its
  state is otherwise unchanged. On a video load failure, and on a playback status that
  is not loaded and carries an error, the card writes one console error line, stores an
  error message and clears the loading flag, so that the error overlay is shown; the
  video handle, \<^verbatim>\<open>isPlaying\<close>, the current video and the calls issued are unchanged: no
  call is issued in response.
\<close>

theorem load_failure_handling:
  "drawer_console (imageOnError e ds) = drawer_console ds @ [ConsoleLog (''Failed to load image '' @ e)]
   \<and> currentUser (imageOnError e ds) = currentUser ds
   \<and> authorizedUsers (imageOnError e ds) = authorizedUsers ds
   \<and> console (onError e st) = console st @ [ConsoleError (''Video Load Error: '' @ e)]
   \<and> error (onError e st) = Some (''Failed to load video. '' @ e)
   \<and> \<not> isLoading (onError e st)
   \<and> showsErrorOverlay (onError e st)
   \<and> videoRef (onError e st) = videoRef st
   \<and> isPlaying (onError e st) = isPlaying st
   \<and> currentVideo (onError e st) = currentVideo st
   \<and> issued (onError e st) = issued st
   \<and> (\<not> isLoaded status \<and> status_error status = Some e \<and> e \<noteq> [] \<longrightarrow>
        onPlaybackStatusUpdate status st
        = st\<lparr> error := Some (''Video Error: '' @ e), isLoading := False,
              console := console st @ [ConsoleError (''Video Playback Error: '' @ e)] \<rparr>
        \<and> showsErrorOverlay (onPlaybackStatusUpdate status st))"
  by (simp add: imageOnError_def onError_def onPlaybackStatusUpdate_def showsErrorOverlay_def)

text \<open>The example card receives a playback status with an error.\<close>

theorem load_failure_handling_witness:
  "onPlaybackStatusUpdate \<lparr> isLoaded = False, status_error = Some ''boom'' \<rparr> exampleCard
   = exampleCard\<lparr> error := Some ''Video Error: boom'', isLoading := False,
                  console := [ConsoleError ''Video Playback Error: boom''] \<rparr>
   \<and> issued (onError ''boom'' exampleCard) = []"
  using load_failure_handling
          [of "''boom''" "\<lparr> currentUser = None, authorizedUsers = [], drawer_console = [] \<rparr>"
              exampleCard "\<lparr> isLoaded = False, status_error = Some ''boom'' \<rparr>"]
  by (simp add: example_card_simps)


end
